theory Spec2Isabelle
  imports Main
begin

section \<open>Plain objects of the host language\<close>

text \<open>
  The tool set of \<^verbatim>\<open>dynamic-tools.ts\<close> is a plain JavaScript object
  (\<^verbatim>\<open>ToolSet = Record<string, Tool>\<close>). It is modelled by the list of its own
  enumerable data properties in the order in which they were created; a well-formed object
  has no key twice. The tool definitions themselves are opaque values of type \<open>'v\<close>.
  Only the four operations that the source applies to such objects are modelled:
  \<^verbatim>\<open>Object.keys\<close>, \<^verbatim>\<open>delete\<close>, \<^verbatim>\<open>Object.assign\<close> and object spread.
  Their definitions follow ECMAScript for ordinary objects that inherit from
  \<^verbatim>\<open>Object.prototype\<close>.
\<close>

type_synonym 'v js_object = "(string \<times> 'v) list"

definition digit_of :: "char \<Rightarrow> nat option" where
  "digit_of c =
     map_of [(CHR ''0'', 0), (CHR ''1'', 1), (CHR ''2'', 2), (CHR ''3'', 3), (CHR ''4'', 4),
             (CHR ''5'', 5), (CHR ''6'', 6), (CHR ''7'', 7), (CHR ''8'', 8), (CHR ''9'', 9)] c"

fun decimal :: "nat \<Rightarrow> string \<Rightarrow> nat option" where
  "decimal n [] = Some n"
| "decimal n (c # cs) =
     (case digit_of c of None \<Rightarrow> None | Some d \<Rightarrow> decimal (10 * n + d) cs)"

text \<open>
  A property key is an \<^emph>\<open>array index\<close> when it is the canonical decimal numeral of an
  integer from 0 to \<open>2\<^sup>3\<^sup>2 - 2\<close>: digits only, no leading zero except in \<^verbatim>\<open>"0"\<close> itself.
\<close>

definition array_index :: "string \<Rightarrow> nat option" where
  "array_index k =
     (case k of
        [] \<Rightarrow> None
      | c # cs \<Rightarrow>
          if c = CHR ''0'' \<and> cs \<noteq> [] then None
          else (case decimal 0 k of
                  None \<Rightarrow> None
                | Some n \<Rightarrow> if n < 4294967295 then Some n else None))"

definition index_value :: "string \<Rightarrow> nat" where
  "index_value k = (case array_index k of None \<Rightarrow> 0 | Some n \<Rightarrow> n)"

text \<open>
  \<^verbatim>\<open>Object.keys(obj)\<close>: the own property keys in the order of the language
  (OrdinaryOwnPropertyKeys): first the array indices in ascending numeric order, then
  every other key in the order of its creation.
\<close>

definition key_order :: "string list \<Rightarrow> string list" where
  "key_order ks =
     sort_key index_value (filter (\<lambda>k. array_index k \<noteq> None) ks) @
     filter (\<lambda>k. array_index k = None) ks"

definition Object_keys :: "'v js_object \<Rightarrow> string list" where
  "Object_keys obj = key_order (map fst obj)"

text \<open>\<^verbatim>\<open>delete obj[key]\<close> removes the own property; every property here is configurable.\<close>

definition delete_property :: "'v js_object \<Rightarrow> string \<Rightarrow> 'v js_object" where
  "delete_property obj key = filter (\<lambda>p. fst p \<noteq> key) obj"

text \<open>Writing an own property that exists keeps its place in the creation order.\<close>

fun overwrite :: "string \<Rightarrow> 'v \<Rightarrow> 'v js_object \<Rightarrow> 'v js_object" where
  "overwrite k v [] = []"
| "overwrite k v (p # ps) = (if fst p = k then (k, v) # ps else p # overwrite k v ps)"

text \<open>
  \<^verbatim>\<open>obj[key] = value\<close>, the ordinary \<^verbatim>\<open>[[Set]]\<close> that \<^verbatim>\<open>Object.assign\<close> performs
  for every key. An own property is overwritten. Otherwise the prototype chain is asked:
  in Node.js and in browsers \<^verbatim>\<open>Object.prototype\<close> has exactly one accessor property,
  \<^verbatim>\<open>__proto__\<close>, whose setter replaces the prototype of the receiver and creates no own
  property; for every other key a new own property is appended. The prototype is not part
  of the model, since no operation of the source reads it.
\<close>

definition set_property :: "'v js_object \<Rightarrow> string \<Rightarrow> 'v \<Rightarrow> 'v js_object" where
  "set_property obj key v =
     (if key \<in> fst ` set obj then overwrite key v obj
      else if key = ''__proto__'' then obj
      else obj @ [(key, v)])"

text \<open>
  \<^verbatim>\<open>Object.assign(target, source)\<close> reads the own keys of the source in the
  order of \<^verbatim>\<open>Object.keys\<close> and sets each on the target.
\<close>

definition Object_assign :: "'v js_object \<Rightarrow> 'v js_object \<Rightarrow> 'v js_object" where
  "Object_assign target source =
     foldl (\<lambda>t key. case map_of source key of None \<Rightarrow> t | Some v \<Rightarrow> set_property t key v)
       target (Object_keys source)"

text \<open>
  \<^verbatim>\<open>{ ...source }\<close> copies the own properties into a new object by defining them
  (CreateDataProperty), so that no setter runs and \<^verbatim>\<open>__proto__\<close> is copied as an
  own property like any other key.
\<close>

definition define_property :: "'v js_object \<Rightarrow> string \<Rightarrow> 'v \<Rightarrow> 'v js_object" where
  "define_property obj key v =
     (if key \<in> fst ` set obj then overwrite key v obj else obj @ [(key, v)])"

definition spread :: "'v js_object \<Rightarrow> 'v js_object" where
  "spread source =
     foldl (\<lambda>t key. case map_of source key of None \<Rightarrow> t | Some v \<Rightarrow> define_property t key v)
       [] (Object_keys source)"

section \<open>Messages\<close>

text \<open>
  A message of the generation loop has a role and a content, which is a string or a list of
  parts; the parts are opaque (\<open>'p\<close>). \<^verbatim>\<open>prepareStep\<close> returns either
  \<^verbatim>\<open>undefined\<close> (\<open>None\<close>) or an object with the one field \<^verbatim>\<open>messages\<close>.
\<close>

datatype role = System | User | Assistant | Tool

datatype 'p content = Text string | Parts 'p

record 'p message =
  role :: role
  content :: "'p content"

record 'p PrepareStepResult =
  messages :: "'p message list"

section \<open>Configuration and callbacks\<close>

text \<open>
  The callbacks of the configuration are code of the caller. Each is a function of the
  outside world \<open>'w\<close> that returns the world it leaves behind together with either the
  error \<open>'e\<close> it threw (\<open>Inl\<close>; for \<^verbatim>\<open>refreshTools\<close> also a rejected promise) or its
  value (\<open>Inr\<close>). The callbacks act on the world only: they do not write the tools object or
  the array of names handed to them, and the object that \<^verbatim>\<open>refreshTools\<close> returns is
  not the tools object itself. \<^verbatim>\<open>refreshMessage\<close> is absent, a fixed string, or a
  function of the tool names.
\<close>

datatype ('e, 'w) template =
  Fixed string
| Computed "string list \<Rightarrow> 'w \<Rightarrow> ('e + string) \<times> 'w"

record ('v, 's, 'e, 'w) DynamicToolsConfig =
  tools :: "'v js_object"
  refreshTools :: "'w \<Rightarrow> ('e + 'v js_object) \<times> 'w"
  shouldRefresh :: "'s \<Rightarrow> 'w \<Rightarrow> ('e + bool) \<times> 'w"
  onRefresh :: "(string list \<Rightarrow> 'w \<Rightarrow> ('e + unit) \<times> 'w) option"
  refreshMessage :: "('e, 'w) template option"

text \<open>
  The two variables that the closures of \<^verbatim>\<open>dynamicTools\<close> share: the tools object
  (\<^verbatim>\<open>const tools\<close>, mutated in place) and \<^verbatim>\<open>let pendingRefreshMessage: string | null\<close>.
\<close>

record 'v closure =
  tools_ref :: "'v js_object"
  pendingRefreshMessage :: "string option"

text \<open>
  The condition \<^verbatim>\<open>config.refreshMessage\<close> of lines 64 and 73: truthy for a function and
  for a non-empty string, falsy for \<^verbatim>\<open>undefined\<close> and for the empty string.
\<close>

definition truthy :: "('e, 'w) template option \<Rightarrow> bool" where
  "truthy m = (case m of None \<Rightarrow> False | Some (Fixed s) \<Rightarrow> s \<noteq> [] | Some (Computed f) \<Rightarrow> True)"

section \<open>dynamicTools\<close>

text \<open>Lines 56 to 59: every key of the tools object is deleted, then the fresh tools are assigned.\<close>

definition swap_tools :: "'v js_object \<Rightarrow> 'v js_object \<Rightarrow> 'v js_object" where
  "swap_tools tls freshTools =
     Object_assign (foldl delete_property tls (Object_keys tls)) freshTools"

text \<open>Line 62, \<^verbatim>\<open>config.onRefresh?.(toolNames)\<close>: the observer is called when there is one.\<close>

definition call_onRefresh ::
  "('v, 's, 'e, 'w) DynamicToolsConfig \<Rightarrow> string list \<Rightarrow> 'w \<Rightarrow> ('e + unit) \<times> 'w" where
  "call_onRefresh config toolNames w =
     (case onRefresh config of None \<Rightarrow> (Inr (), w) | Some f \<Rightarrow> f toolNames w)"

text \<open>
  Lines 66 to 68: the text of the message is the value of the function at the tool names,
  or the fixed string.
\<close>

definition message_text ::
  "('e, 'w) template \<Rightarrow> string list \<Rightarrow> 'w \<Rightarrow> ('e + string) \<times> 'w" where
  "message_text m toolNames w =
     (case m of Computed f \<Rightarrow> f toolNames w | Fixed s \<Rightarrow> (Inr s, w))"

text \<open>
  Lines 64 to 69: when \<^verbatim>\<open>config.refreshMessage\<close> is truthy, the text is assigned to
  \<^verbatim>\<open>pendingRefreshMessage\<close>, whatever that variable held.
\<close>

definition set_pending ::
  "('v, 's, 'e, 'w) DynamicToolsConfig \<Rightarrow> string list \<Rightarrow> 'v closure \<Rightarrow> 'w \<Rightarrow>
     ('e + unit) \<times> 'v closure \<times> 'w" where
  "set_pending config toolNames c w =
     (case refreshMessage config of
        None \<Rightarrow> (Inr (), c, w)
      | Some m \<Rightarrow>
          if truthy (Some m)
          then (case message_text m toolNames w of
                  (Inl e, w') \<Rightarrow> (Inl e, c, w')
                | (Inr s, w') \<Rightarrow> (Inr (), c\<lparr>pendingRefreshMessage := Some s\<rparr>, w'))
          else (Inr (), c, w))"

text \<open>
  \<^verbatim>\<open>onStepFinish\<close> (lines 50 to 70). The function is asynchronous: whatever is thrown
  inside it rejects the promise it returns, which is the result \<open>Inl\<close>. One call runs from
  start to end without another call on the same closure in between, as the generation loop
  awaits it.
\<close>

definition onStepFinish ::
  "('v, 's, 'e, 'w) DynamicToolsConfig \<Rightarrow> 's \<Rightarrow> 'v closure \<Rightarrow> 'w \<Rightarrow>
     ('e + unit) \<times> 'v closure \<times> 'w" where
  "onStepFinish config step c w =
     (case shouldRefresh config step w of
        (Inl e, w1) \<Rightarrow> (Inl e, c, w1)
      | (Inr b, w1) \<Rightarrow>
          if \<not> b then (Inr (), c, w1)
          else
            (case refreshTools config w1 of
               (Inl e, w2) \<Rightarrow> (Inl e, c, w2)
             | (Inr freshTools, w2) \<Rightarrow>
                 let c1 = c\<lparr>tools_ref := swap_tools (tools_ref c) freshTools\<rparr>;
                     toolNames = Object_keys (tools_ref c1)
                 in (case call_onRefresh config toolNames w2 of
                       (Inl e, w3) \<Rightarrow> (Inl e, c1, w3)
                     | (Inr u, w3) \<Rightarrow> set_pending config toolNames c1 w3)))"

text \<open>
  \<^verbatim>\<open>prepareStep\<close> (lines 72 to 87) exists only when \<^verbatim>\<open>config.refreshMessage\<close> is
  truthy. The test \<^verbatim>\<open>!pendingRefreshMessage\<close> holds for \<^verbatim>\<open>null\<close> and for the empty
  string. The result is a new array; nothing is written to the array passed in.
\<close>

definition prepareStep ::
  "('v, 's, 'e, 'w) DynamicToolsConfig \<Rightarrow>
     ('p message list \<Rightarrow> 'v closure \<Rightarrow> 'p PrepareStepResult option \<times> 'v closure) option" where
  "prepareStep config =
     (if truthy (refreshMessage config)
      then Some (\<lambda>msgs c.
        (case pendingRefreshMessage c of
           None \<Rightarrow> (None, c)
         | Some notification \<Rightarrow>
             if notification = [] then (None, c)
             else (Some \<lparr>messages = msgs @
                          [\<lparr>role = User, content = Text (''[system: '' @ notification @ '']'')\<rparr>]\<rparr>,
                   c\<lparr>pendingRefreshMessage := None\<rparr>)))
      else None)"

text \<open>
  The object that \<^verbatim>\<open>dynamicTools\<close> returns: the variables the hooks share, with
  \<^verbatim>\<open>tools\<close> a shallow copy of \<^verbatim>\<open>config.tools\<close>, the hook \<^verbatim>\<open>onStepFinish\<close>, and
  the key \<^verbatim>\<open>prepareStep\<close> only when the hook exists (\<open>None\<close>: the key is absent).
\<close>

record ('v, 's, 'p, 'e, 'w) DynamicToolsResult =
  closure0 :: "'v closure"
  onStepFinish' :: "'s \<Rightarrow> 'v closure \<Rightarrow> 'w \<Rightarrow> ('e + unit) \<times> 'v closure \<times> 'w"
  prepareStep' ::
    "('p message list \<Rightarrow> 'v closure \<Rightarrow> 'p PrepareStepResult option \<times> 'v closure) option"

definition dynamicTools ::
  "('v, 's, 'e, 'w) DynamicToolsConfig \<Rightarrow> ('v, 's, 'p, 'e, 'w) DynamicToolsResult" where
  "dynamicTools config =
     \<lparr>closure0 = \<lparr>tools_ref = spread (tools config), pendingRefreshMessage = None\<rparr>,
      onStepFinish' = onStepFinish config,
      prepareStep' = prepareStep config\<rparr>"

text \<open>
  The caller's side of the optional hook, \<^verbatim>\<open>prepareStep?.(options)\<close> as the tests write
  it: without a hook there is no override and nothing changes.
\<close>

definition call_prepareStep ::
  "('v, 's, 'e, 'w) DynamicToolsConfig \<Rightarrow> 'p message list \<Rightarrow> 'v closure \<Rightarrow>
     'p PrepareStepResult option \<times> 'v closure" where
  "call_prepareStep config msgs c =
     (case prepareStep config of None \<Rightarrow> (None, c) | Some hook \<Rightarrow> hook msgs c)"

section \<open>composeStepHandlers\<close>

text \<open>
  The composed handler awaits the handlers one after the other with the same step; a
  handler that throws or rejects ends the loop and rejects the composed promise.
\<close>

fun composeStepHandlers ::
  "('s \<Rightarrow> 'w \<Rightarrow> ('e + unit) \<times> 'w) list \<Rightarrow> 's \<Rightarrow> 'w \<Rightarrow> ('e + unit) \<times> 'w" where
  "composeStepHandlers [] step w = (Inr (), w)"
| "composeStepHandlers (handler # handlers) step w =
     (case handler step w of
        (Inl e, w') \<Rightarrow> (Inl e, w')
      | (Inr u, w') \<Rightarrow> composeStepHandlers handlers step w')"

section \<open>Example configurations\<close>

text \<open>
  The configurations of the test suite, used below at concrete inputs. A step is the stub
  that the tests build (\<^verbatim>\<open>makeStep\<close>); a tool definition is a number. The world counts
  the calls of \<^verbatim>\<open>refreshTools\<close>, keeps the arguments of the calls of
  \<^verbatim>\<open>onRefresh\<close>, and for the composed handlers the number of each handler called and
  the step it was given, as the mock functions of the tests do.
\<close>

record tool_call =
  toolName :: string

record step_result =
  toolCalls :: "tool_call list"

record world =
  fetched :: nat
  observed :: "string list list"
  marks :: "(nat \<times> step_result) list"

definition world0 :: world where
  "world0 = \<lparr>fetched = 0, observed = [], marks = []\<rparr>"

definition makeStep :: "string list \<Rightarrow> step_result" where
  "makeStep names = \<lparr>toolCalls = map (\<lambda>n. \<lparr>toolName = n\<rparr>) names\<rparr>"

definition calls_load_skill :: "step_result \<Rightarrow> world \<Rightarrow> (string + bool) \<times> world" where
  "calls_load_skill step w =
     (Inr (list_ex (\<lambda>tc. toolName tc = ''load-skill'') (toolCalls step)), w)"

definition fetch :: "int js_object \<Rightarrow> world \<Rightarrow> (string + int js_object) \<times> world" where
  "fetch freshTools w = (Inr freshTools, w\<lparr>fetched := Suc (fetched w)\<rparr>)"

definition fetch_fails :: "world \<Rightarrow> (string + int js_object) \<times> world" where
  "fetch_fails w = (Inl ''fetch failed'', w\<lparr>fetched := Suc (fetched w)\<rparr>)"

definition fetch_numbered :: "world \<Rightarrow> (string + int js_object) \<times> world" where
  "fetch_numbered w =
     (Inr (if fetched w = 0 then [(''tool-1'', 1)] else [(''tool-2'', 2)]),
      w\<lparr>fetched := Suc (fetched w)\<rparr>)"

definition observe :: "string list \<Rightarrow> world \<Rightarrow> (string + unit) \<times> world" where
  "observe names w = (Inr (), w\<lparr>observed := observed w @ [names]\<rparr>)"

definition observe_fails :: "string list \<Rightarrow> world \<Rightarrow> (string + unit) \<times> world" where
  "observe_fails names w = (Inl ''observer failed'', w\<lparr>observed := observed w @ [names]\<rparr>)"

fun join :: "string \<Rightarrow> string list \<Rightarrow> string" where
  "join sep [] = []"
| "join sep [x] = x"
| "join sep (x # y # ys) = x @ sep @ join sep (y # ys)"

definition now_available :: "string list \<Rightarrow> world \<Rightarrow> (string + string) \<times> world" where
  "now_available names w = (Inr (''Now available: '' @ join '', '' names), w)"

definition silent :: "string list \<Rightarrow> world \<Rightarrow> (string + string) \<times> world" where
  "silent names w = (Inr [], w)"

definition example_config ::
  "(world \<Rightarrow> (string + int js_object) \<times> world) \<Rightarrow> (string, world) template option \<Rightarrow>
     (int, step_result, string, world) DynamicToolsConfig" where
  "example_config refresh m =
     \<lparr>tools = [(''old'', 0)], refreshTools = refresh, shouldRefresh = calls_load_skill,
      onRefresh = Some observe, refreshMessage = m\<rparr>"

definition old_closure :: "int closure" where
  "old_closure = \<lparr>tools_ref = [(''old'', 0)], pendingRefreshMessage = None\<rparr>"

definition hello :: "unit message list" where
  "hello = [\<lparr>role = User, content = Text ''hello''\<rparr>]"

definition mark :: "nat \<Rightarrow> step_result \<Rightarrow> world \<Rightarrow> (string + unit) \<times> world" where
  "mark n step w = (Inr (), w\<lparr>marks := marks w @ [(n, step)]\<rparr>)"

definition mark_fails :: "nat \<Rightarrow> step_result \<Rightarrow> world \<Rightarrow> (string + unit) \<times> world" where
  "mark_fails n step w = (Inl ''handler failed'', w\<lparr>marks := marks w @ [(n, step)]\<rparr>)"

section \<open>Facts about objects\<close>

lemma set_key_order: "set (key_order ks) = set ks"
  by (auto simp: key_order_def)

lemma distinct_key_order: "distinct ks \<Longrightarrow> distinct (key_order ks)"
  by (auto simp: key_order_def)

lemma set_Object_keys: "set (Object_keys obj) = fst ` set obj"
  by (simp add: Object_keys_def set_key_order)

lemma foldl_delete_property:
  "foldl delete_property obj ks = filter (\<lambda>p. fst p \<notin> set ks) obj"
  by (induction ks arbitrary: obj) (auto simp: delete_property_def intro: filter_cong)

lemma clear_all: "foldl delete_property obj (Object_keys obj) = []"
  by (simp add: foldl_delete_property set_Object_keys)

lemma proto_not_index: "array_index ''__proto__'' = None"
  by (simp add: array_index_def digit_of_def)

text \<open>The key set after an assignment: every key of the source but \<^verbatim>\<open>__proto__\<close>.\<close>

lemma keys_overwrite: "map fst (overwrite k v obj) = map fst obj"
  by (induction obj) auto

lemma keys_set_property:
  "fst ` set (set_property obj k v) =
     (if k = ''__proto__'' \<and> k \<notin> fst ` set obj then fst ` set obj else insert k (fst ` set obj))"
proof -
  have "fst ` set (overwrite k v obj) = fst ` set obj"
    using keys_overwrite[of k v obj] by (metis list.set_map)
  then show ?thesis by (auto simp: set_property_def)
qed

lemma keys_assign_fold:
  "set ks \<subseteq> fst ` set source \<Longrightarrow>
   fst ` set (foldl (\<lambda>t key. case map_of source key of None \<Rightarrow> t | Some v \<Rightarrow> set_property t key v) t ks) =
   fst ` set t \<union> (set ks - {''__proto__''})"
proof (induction ks arbitrary: t)
  case Nil
  then show ?case by simp
next
  case (Cons k ks)
  from Cons.prems obtain v where v: "map_of source k = Some v"
    by (cases "map_of source k") (auto simp: map_of_eq_None_iff)
  have "set ks \<subseteq> fst ` set source" using Cons.prems by simp
  from Cons.IH[OF this, of "set_property t k v"] v show ?case
    by (auto simp: keys_set_property split: if_splits)
qed

lemma keys_swap_tools:
  "fst ` set (swap_tools tls freshTools) = fst ` set freshTools - {''__proto__''}"
  unfolding swap_tools_def Object_assign_def clear_all
  using keys_assign_fold[of "Object_keys freshTools" freshTools "[]"]
  by (simp add: set_Object_keys)

text \<open>
  Total replacement: for fresh tools without the key \<^verbatim>\<open>__proto__\<close>, the keys of the
  tools object after the swap are exactly the keys of the fresh tools, whatever it held.
\<close>

lemma total_replacement:
  "''__proto__'' \<notin> fst ` set freshTools \<Longrightarrow>
   set (Object_keys (swap_tools tls freshTools)) = set (Object_keys freshTools)"
  by (simp add: set_Object_keys keys_swap_tools)

text \<open>The order of the keys after an assignment to the emptied object.\<close>

lemma assign_fresh:
  "distinct ks \<Longrightarrow> set ks \<inter> fst ` set t = {} \<Longrightarrow> set ks \<subseteq> fst ` set source \<Longrightarrow>
   foldl (\<lambda>t key. case map_of source key of None \<Rightarrow> t | Some v \<Rightarrow> set_property t key v) t ks =
   t @ map (\<lambda>k. (k, the (map_of source k))) (filter (\<lambda>k. k \<noteq> ''__proto__'') ks)"
proof (induction ks arbitrary: t)
  case Nil
  then show ?case by simp
next
  case (Cons k ks)
  from Cons.prems obtain v where v: "map_of source k = Some v"
    by (cases "map_of source k") (auto simp: map_of_eq_None_iff)
  let ?t' = "set_property t k v"
  have k: "k \<notin> fst ` set t" using Cons.prems by auto
  have t': "?t' = (if k = ''__proto__'' then t else t @ [(k, v)])"
    using k by (simp add: set_property_def)
  have 1: "set ks \<inter> fst ` set ?t' = {}" using Cons.prems by (auto simp: t')
  have 2: "distinct ks" and 3: "set ks \<subseteq> fst ` set source" using Cons.prems by auto
  show ?case using Cons.IH[OF 2 1 3] v by (simp add: t')
qed

lemma Object_assign_empty:
  assumes "distinct (map fst source)"
  shows "Object_assign [] source =
     map (\<lambda>k. (k, the (map_of source k))) (filter (\<lambda>k. k \<noteq> ''__proto__'') (Object_keys source))"
  unfolding Object_assign_def
  using assign_fresh[of "Object_keys source" "[]" source] assms
  by (simp add: Object_keys_def distinct_key_order set_key_order)

lemma sorted_map_filter: "sorted (map f xs) \<Longrightarrow> sorted (map f (filter P xs))"
  by (induction xs) auto

lemma key_order_id:
  assumes "list_all (\<lambda>k. array_index k \<noteq> None) as" "sorted (map index_value as)"
    "list_all (\<lambda>k. array_index k = None) bs"
  shows "key_order (as @ bs) = as @ bs"
proof -
  have "filter (\<lambda>k. array_index k \<noteq> None) as = as" "filter (\<lambda>k. array_index k = None) as = []"
    "filter (\<lambda>k. array_index k \<noteq> None) bs = []" "filter (\<lambda>k. array_index k = None) bs = bs"
    using assms(1,3) by (auto simp: list_all_iff filter_empty_conv intro: filter_True)
  then show ?thesis
    using sort_key_id_if_sorted[OF assms(2)] by (simp add: key_order_def)
qed

lemma key_order_filter:
  "key_order (filter P (key_order ks)) = filter P (key_order ks)"
proof -
  let ?A = "sort_key index_value (filter (\<lambda>k. array_index k \<noteq> None) ks)"
  let ?B = "filter (\<lambda>k. array_index k = None) ks"
  have "key_order (filter P ?A @ filter P ?B) = filter P ?A @ filter P ?B"
    by (rule key_order_id) (auto simp: list_all_iff intro: sorted_map_filter)
  then show ?thesis by (simp add: key_order_def[of ks])
qed

lemma Object_keys_swap_tools:
  assumes "distinct (map fst freshTools)"
  shows "Object_keys (swap_tools tls freshTools) =
     filter (\<lambda>k. k \<noteq> ''__proto__'') (Object_keys freshTools)"
proof -
  have "map fst (swap_tools tls freshTools) =
      filter (\<lambda>k. k \<noteq> ''__proto__'') (Object_keys freshTools)"
    by (simp add: swap_tools_def clear_all Object_assign_empty[OF assms] comp_def)
  then show ?thesis
    by (simp add: Object_keys_def key_order_filter)
qed

text \<open>
  After the swap the tools object is well formed and holds, under every key it has, the
  tool that the fresh tools hold under that key.
\<close>

lemma swap_tools_distinct:
  assumes "distinct (map fst freshTools)"
  shows "distinct (map fst (swap_tools tls freshTools))"
proof -
  have "map fst (swap_tools tls freshTools) =
      filter (\<lambda>k. k \<noteq> ''__proto__'') (Object_keys freshTools)"
    by (simp add: swap_tools_def clear_all Object_assign_empty[OF assms] comp_def)
  then show ?thesis
    using assms by (simp add: Object_keys_def distinct_key_order)
qed

lemma swap_tools_contents:
  assumes "distinct (map fst freshTools)" and "k \<noteq> ''__proto__''"
  shows "map_of (swap_tools tls freshTools) k = map_of freshTools k"
proof -
  let ?ks = "filter (\<lambda>k. k \<noteq> ''__proto__'') (Object_keys freshTools)"
  have sw: "swap_tools tls freshTools = map (\<lambda>k. (k, the (map_of freshTools k))) ?ks"
    by (simp add: swap_tools_def clear_all Object_assign_empty[OF assms(1)])
  show ?thesis
  proof (cases "k \<in> fst ` set freshTools")
    case True
    then obtain v where v: "map_of freshTools k = Some v"
      by (cases "map_of freshTools k") (auto simp: map_of_eq_None_iff)
    have "k \<in> set ?ks" using True assms(2) by (simp add: set_Object_keys)
    then have "map_of (map (\<lambda>k. (k, the (map_of freshTools k))) ?ks) k = Some (the (map_of freshTools k))"
      by (simp add: map_of_map_restrict)
    then show ?thesis using v by (simp add: sw)
  next
    case False
    then have "map_of freshTools k = None" by (simp add: map_of_eq_None_iff)
    moreover have "map_of (swap_tools tls freshTools) k = None"
      using False by (simp add: map_of_eq_None_iff keys_swap_tools)
    ultimately show ?thesis by simp
  qed
qed

lemma Object_keys_swap_tools_plain:
  assumes "distinct (map fst freshTools)" "''__proto__'' \<notin> fst ` set freshTools"
  shows "Object_keys (swap_tools tls freshTools) = Object_keys freshTools"
proof -
  have "filter (\<lambda>k. k \<noteq> ''__proto__'') (Object_keys freshTools) = Object_keys freshTools"
    using assms(2) by (intro filter_True) (force simp: set_Object_keys)
  then show ?thesis by (simp add: Object_keys_swap_tools[OF assms(1)])
qed

lemma Object_keys_insertion_order:
  "list_all (\<lambda>k. array_index k = None) (map fst obj) \<Longrightarrow> Object_keys obj = map fst obj"
  using key_order_id[of "[]" "map fst obj"] by (simp add: Object_keys_def)

section \<open>Facts about a refresh\<close>

text \<open>
  The closure in which the example runs start is the one that \<^verbatim>\<open>dynamicTools\<close>
  creates for the example configuration.
\<close>

lemma old_closure_initial:
  "closure0 (dynamicTools (example_config refresh m) ::
     (int, step_result, 'p, string, world) DynamicToolsResult) = old_closure"
  by (simp add: dynamicTools_def example_config_def old_closure_def spread_def
      define_property_def Object_keys_def key_order_def array_index_def digit_of_def)

text \<open>The definitions that a concrete run unfolds.\<close>

lemmas run_defs =
  example_config_def calls_load_skill_def makeStep_def world0_def old_closure_def
  fetch_def observe_def
  onStepFinish_def swap_tools_def Object_assign_def Object_keys_def key_order_def
  array_index_def digit_of_def index_value_def set_property_def delete_property_def
  call_onRefresh_def set_pending_def truthy_def message_text_def
  prepareStep_def call_prepareStep_def

text \<open>
  A step that triggers a refresh whose fetch succeeds: the swap is done first, then the
  observer is called with the keys of the tools object, then the pending message is set.
\<close>

lemma onStepFinish_refresh:
  assumes "shouldRefresh config step w = (Inr True, w1)"
    and "refreshTools config w1 = (Inr freshTools, w2)"
  shows "onStepFinish config step c w =
     (case call_onRefresh config (Object_keys (swap_tools (tools_ref c) freshTools)) w2 of
        (Inl e, w3) \<Rightarrow> (Inl e, c\<lparr>tools_ref := swap_tools (tools_ref c) freshTools\<rparr>, w3)
      | (Inr u, w3) \<Rightarrow>
          set_pending config (Object_keys (swap_tools (tools_ref c) freshTools))
            (c\<lparr>tools_ref := swap_tools (tools_ref c) freshTools\<rparr>) w3)"
  using assms by (simp add: onStepFinish_def Let_def split: prod.splits sum.splits)

text \<open>However the rest of such a call ends, the tools object is the swapped one.\<close>

lemma onStepFinish_tools:
  assumes "shouldRefresh config step w = (Inr True, w1)"
    and "refreshTools config w1 = (Inr freshTools, w2)"
  shows "tools_ref (fst (snd (onStepFinish config step c w))) =
     swap_tools (tools_ref c) freshTools"
  by (simp add: onStepFinish_refresh[OF assms] set_pending_def
      split: prod.splits sum.splits option.splits)

lemma onStepFinish_key_set:
  assumes "shouldRefresh config step w = (Inr True, w1)"
    and "refreshTools config w1 = (Inr freshTools, w2)"
    and "''__proto__'' \<notin> fst ` set freshTools"
  shows "set (Object_keys (tools_ref (fst (snd (onStepFinish config step c w))))) =
     set (Object_keys freshTools)"
  by (simp add: onStepFinish_tools[OF assms(1,2)] total_replacement[OF assms(3)])

text \<open>Fresh tools with the key \<^verbatim>\<open>__proto__\<close> never give the tools object their key set.\<close>

lemma onStepFinish_key_set_proto:
  assumes "shouldRefresh config step w = (Inr True, w1)"
    and "refreshTools config w1 = (Inr freshTools, w2)"
    and "''__proto__'' \<in> fst ` set freshTools"
  shows "set (Object_keys (tools_ref (fst (snd (onStepFinish config step c w))))) =
       set (Object_keys freshTools) - {''__proto__''}"
    and "set (Object_keys (tools_ref (fst (snd (onStepFinish config step c w))))) \<noteq>
       set (Object_keys freshTools)"
  using assms(3) by (auto simp: onStepFinish_tools[OF assms(1,2)] set_Object_keys keys_swap_tools)

lemma swap_tools_empty: "swap_tools tls [] = []"
  unfolding swap_tools_def clear_all
  by (simp add: Object_assign_def Object_keys_def key_order_def)

text \<open>
  When the observer throws, the swap has been done and the pending message is the one
  from before the call.
\<close>

lemma onStepFinish_observer_failure:
  assumes "shouldRefresh config step w = (Inr True, w1)"
    and "refreshTools config w1 = (Inr freshTools, w2)"
    and "call_onRefresh config (Object_keys (swap_tools (tools_ref c) freshTools)) w2 = (Inl e, w3)"
  shows "onStepFinish config step c w =
     (Inl e, c\<lparr>tools_ref := swap_tools (tools_ref c) freshTools\<rparr>, w3)"
  using assms(3) by (simp add: onStepFinish_refresh[OF assms(1,2)])

lemma composeStepHandlers_append:
  "composeStepHandlers (before @ after) step w =
     (case composeStepHandlers before step w of
        (Inl e, w1) \<Rightarrow> (Inl e, w1)
      | (Inr u, w1) \<Rightarrow> composeStepHandlers after step w1)"
  by (induction before arbitrary: w) (auto split: prod.splits sum.splits)

section \<open>The keys after a refresh\<close>

text \<open>
  Claim C1 says that after a refresh the key set of the tools object is the key set of the
  fresh tools, for every mapping that \<^verbatim>\<open>refreshTools\<close> returns. For fresh tools
  without the key \<^verbatim>\<open>__proto__\<close> this holds (\<open>onStepFinish_key_set\<close>), and fresh tools
  without any key leave the tools object empty (\<open>swap_tools_empty\<close>). With the key
  \<^verbatim>\<open>__proto__\<close> the code does otherwise: \<^verbatim>\<open>Object.assign\<close> hands the tool of that
  name to the setter inherited from \<^verbatim>\<open>Object.prototype\<close>, and the tools object has no
  such key afterwards. Here the fresh tools are \<^verbatim>\<open>search\<close> and \<^verbatim>\<open>__proto__\<close>; after
  the refresh the only key is \<^verbatim>\<open>search\<close>, and it is the only name the observer is
  given.
\<close>

theorem refresh_loses_proto_tool:
  "onStepFinish (example_config (fetch [(''search'', 1), (''__proto__'', 2)]) None)
     (makeStep [''load-skill'']) old_closure world0 =
     (Inr (), old_closure\<lparr>tools_ref := [(''search'', 1)]\<rparr>,
      world0\<lparr>fetched := 1, observed := [[''search'']]\<rparr>) \<and>
   Object_keys [(''search'', 1::int), (''__proto__'', 2)] = [''search'', ''__proto__'']"
  by (simp add: run_defs)

section \<open>Steps that do not refresh\<close>

text \<open>
  Claim C2. When \<^verbatim>\<open>shouldRefresh\<close> returns false, \<^verbatim>\<open>onStepFinish\<close> resolves and has
  no effect: the closure it returns is the closure it was given, so the tools object (keys
  and contents) and the pending message are unchanged and no notification is armed; and the
  world is the one that \<^verbatim>\<open>shouldRefresh\<close> itself left. The same holds with any other
  \<^verbatim>\<open>refreshTools\<close>, \<^verbatim>\<open>onRefresh\<close> and \<^verbatim>\<open>refreshMessage\<close> in the configuration:
  the call does not depend on them, none of them is called.
\<close>

theorem onStepFinish_skip:
  "shouldRefresh config step w = (Inr False, w1) \<Longrightarrow>
   onStepFinish config step c w = (Inr (), c, w1) \<and>
   onStepFinish (config\<lparr>refreshTools := r, onRefresh := obs, refreshMessage := m\<rparr>) step c w =
     (Inr (), c, w1)"
  by (simp add: onStepFinish_def)

text \<open>
  The test ``does not refresh when shouldRefresh returns false'': the step calls
  \<^verbatim>\<open>some-tool\<close>, the counter of \<^verbatim>\<open>refreshTools\<close> stays at 0 and the observer has
  seen nothing; nor would a fetch that fails be noticed.
\<close>

theorem onStepFinish_skip_witness:
  "shouldRefresh (example_config (fetch [(''fresh'', 1)]) (Some (Fixed ''Updated!'')))
     (makeStep [''some-tool'']) world0 = (Inr False, world0) \<and>
   onStepFinish (example_config (fetch [(''fresh'', 1)]) (Some (Fixed ''Updated!'')))
     (makeStep [''some-tool'']) old_closure world0 = (Inr (), old_closure, world0) \<and>
   onStepFinish (example_config fetch_fails None)
     (makeStep [''some-tool'']) old_closure world0 = (Inr (), old_closure, world0) \<and>
   fetched world0 = 0 \<and> observed world0 = []"
proof -
  let ?cfg = "example_config (fetch [(''fresh'', 1)]) (Some (Fixed ''Updated!''))"
  have h: "shouldRefresh ?cfg (makeStep [''some-tool'']) world0 = (Inr False, world0)"
    by (simp add: example_config_def calls_load_skill_def makeStep_def)
  have e: "?cfg\<lparr>refreshTools := fetch_fails, onRefresh := Some observe, refreshMessage := None\<rparr> =
      example_config fetch_fails None"
    by (simp add: example_config_def)
  show ?thesis
    using h onStepFinish_skip [OF h, where c = old_closure and r = fetch_fails
        and obs = "Some observe" and m = None]
    unfolding e by (simp add: world0_def)
qed

section \<open>The notification is delivered once\<close>

text \<open>
  Claim C3, as amended. Let a step trigger a refresh that completes: the fetch succeeds,
  the observer (if any) returns, and the text of the message, the fixed string or the value
  of the function at the new tool names, is not empty. Then the hook \<^verbatim>\<open>prepareStep\<close>
  exists; \<^verbatim>\<open>onStepFinish\<close> resolves with the text pending; the next call of the hook
  returns the messages it was given followed by one message of role user with the content
  \<^verbatim>\<open>[system: <text>]\<close> and clears the pending text; and in the closure it leaves, every
  call of the hook returns no override and changes nothing, so this holds for all later
  calls until another refresh. The hook builds a new list; the list it was given is not
  among the things it writes.
\<close>

theorem notification_once:
  assumes "shouldRefresh config step w = (Inr True, w1)"
    and "refreshTools config w1 = (Inr freshTools, w2)"
    and "call_onRefresh config (Object_keys (swap_tools (tools_ref c) freshTools)) w2 = (Inr (), w3)"
    and "refreshMessage config = Some m"
    and "message_text m (Object_keys (swap_tools (tools_ref c) freshTools)) w3 = (Inr txt, w4)"
    and "txt \<noteq> []"
  shows "\<exists>hook.
     prepareStep config = Some hook \<and>
     onStepFinish config step c w =
       (Inr (), c\<lparr>tools_ref := swap_tools (tools_ref c) freshTools,
                  pendingRefreshMessage := Some txt\<rparr>, w4) \<and>
     hook msgs (c\<lparr>tools_ref := swap_tools (tools_ref c) freshTools,
                  pendingRefreshMessage := Some txt\<rparr>) =
       (Some \<lparr>messages = msgs @ [\<lparr>role = User, content = Text (''[system: '' @ txt @ '']'')\<rparr>]\<rparr>,
        c\<lparr>tools_ref := swap_tools (tools_ref c) freshTools, pendingRefreshMessage := None\<rparr>) \<and>
     (\<forall>msgs'. hook msgs' (c\<lparr>tools_ref := swap_tools (tools_ref c) freshTools,
                  pendingRefreshMessage := None\<rparr>) =
       (None, c\<lparr>tools_ref := swap_tools (tools_ref c) freshTools, pendingRefreshMessage := None\<rparr>))"
proof -
  have t: "truthy (Some m)"
    using assms(5,6) by (cases m) (auto simp: truthy_def message_text_def)
  have "onStepFinish config step c w =
       (Inr (), c\<lparr>tools_ref := swap_tools (tools_ref c) freshTools,
                  pendingRefreshMessage := Some txt\<rparr>, w4)"
    using assms(3,4,5) t by (simp add: onStepFinish_refresh[OF assms(1,2)] set_pending_def)
  then show ?thesis
    using t assms(4,6) by (simp add: prepareStep_def)
qed

text \<open>
  The tests ``appends a user message after refresh (static string)'' and ``clears the flag
  after firing'': the fixed text \<^verbatim>\<open>Updated!\<close>, the messages \<^verbatim>\<open>[{user, "hello"}]\<close>.
\<close>

theorem notification_once_witness:
  "shouldRefresh (example_config (fetch [(''fresh'', 1)]) (Some (Fixed ''Updated!'')))
     (makeStep [''load-skill'']) world0 = (Inr True, world0) \<and>
   refreshTools (example_config (fetch [(''fresh'', 1)]) (Some (Fixed ''Updated!''))) world0 =
     (Inr [(''fresh'', 1)], world0\<lparr>fetched := 1\<rparr>) \<and>
   call_onRefresh (example_config (fetch [(''fresh'', 1)]) (Some (Fixed ''Updated!''))) [''fresh'']
     (world0\<lparr>fetched := 1\<rparr>) = (Inr (), world0\<lparr>fetched := 1, observed := [[''fresh'']]\<rparr>) \<and>
   ''Updated!'' \<noteq> [] \<and>
   onStepFinish (example_config (fetch [(''fresh'', 1)]) (Some (Fixed ''Updated!'')))
     (makeStep [''load-skill'']) old_closure world0 =
     (Inr (), \<lparr>tools_ref = [(''fresh'', 1)], pendingRefreshMessage = Some ''Updated!''\<rparr>,
      world0\<lparr>fetched := 1, observed := [[''fresh'']]\<rparr>) \<and>
   call_prepareStep (example_config (fetch [(''fresh'', 1)]) (Some (Fixed ''Updated!''))) hello
     \<lparr>tools_ref = [(''fresh'', 1)], pendingRefreshMessage = Some ''Updated!''\<rparr> =
     (Some \<lparr>messages = [\<lparr>role = User, content = Text ''hello''\<rparr>,
                         \<lparr>role = User, content = Text ''[system: Updated!]''\<rparr>]\<rparr>,
      \<lparr>tools_ref = [(''fresh'', 1)], pendingRefreshMessage = None\<rparr>) \<and>
   call_prepareStep (example_config (fetch [(''fresh'', 1)]) (Some (Fixed ''Updated!''))) hello
     \<lparr>tools_ref = [(''fresh'', 1)], pendingRefreshMessage = None\<rparr> =
     (None, \<lparr>tools_ref = [(''fresh'', 1)], pendingRefreshMessage = None\<rparr>)"
proof -
  let ?cfg = "example_config (fetch [(''fresh'', 1)]) (Some (Fixed ''Updated!''))"
  let ?w1 = "world0\<lparr>fetched := 1\<rparr>"
  let ?w2 = "world0\<lparr>fetched := 1, observed := [[''fresh'']]\<rparr>"
  have sw: "swap_tools (tools_ref old_closure) [(''fresh'', 1::int)] = [(''fresh'', 1)]"
    by (simp add: run_defs)
  have ks: "Object_keys [(''fresh'', 1::int)] = [''fresh'']"
    by (simp add: run_defs)
  have h1: "shouldRefresh ?cfg (makeStep [''load-skill'']) world0 = (Inr True, world0)"
    by (simp add: example_config_def calls_load_skill_def makeStep_def)
  have h2: "refreshTools ?cfg world0 = (Inr [(''fresh'', 1)], ?w1)"
    by (simp add: example_config_def fetch_def world0_def)
  have h3: "call_onRefresh ?cfg (Object_keys (swap_tools (tools_ref old_closure) [(''fresh'', 1)])) ?w1 =
      (Inr (), ?w2)"
    unfolding sw ks by (simp add: call_onRefresh_def example_config_def observe_def world0_def)
  have h4: "refreshMessage ?cfg = Some (Fixed ''Updated!'')"
    by (simp add: example_config_def)
  have h5: "message_text (Fixed ''Updated!'')
      (Object_keys (swap_tools (tools_ref old_closure) [(''fresh'', 1)])) ?w2 = (Inr ''Updated!'', ?w2)"
    by (simp add: message_text_def)
  have h6: "''Updated!'' \<noteq> []" by simp
  from notification_once[OF h1 h2 h3 h4 h5 h6, of hello]
  obtain hook where hook: "prepareStep ?cfg = Some hook"
    and fin: "onStepFinish ?cfg (makeStep [''load-skill'']) old_closure world0 =
       (Inr (), old_closure\<lparr>tools_ref := swap_tools (tools_ref old_closure) [(''fresh'', 1)],
                  pendingRefreshMessage := Some ''Updated!''\<rparr>, ?w2)"
    and first: "hook hello (old_closure\<lparr>tools_ref := swap_tools (tools_ref old_closure) [(''fresh'', 1)],
                  pendingRefreshMessage := Some ''Updated!''\<rparr>) =
       (Some \<lparr>messages = hello @ [\<lparr>role = User, content = Text (''[system: '' @ ''Updated!'' @ '']'')\<rparr>]\<rparr>,
        old_closure\<lparr>tools_ref := swap_tools (tools_ref old_closure) [(''fresh'', 1)], pendingRefreshMessage := None\<rparr>)"
    and later: "\<forall>msgs'. hook msgs' (old_closure\<lparr>tools_ref := swap_tools (tools_ref old_closure) [(''fresh'', 1)],
                  pendingRefreshMessage := None\<rparr>) =
       (None, old_closure\<lparr>tools_ref := swap_tools (tools_ref old_closure) [(''fresh'', 1)], pendingRefreshMessage := None\<rparr>)"
    by blast
  have c: "old_closure\<lparr>tools_ref := [(''fresh'', 1)], pendingRefreshMessage := p\<rparr> =
      \<lparr>tools_ref = [(''fresh'', 1)], pendingRefreshMessage = p\<rparr>" for p
    by (simp add: old_closure_def)
  show ?thesis
    using h1 h2 h3 h6 fin first later[rule_format, of hello]
    unfolding sw ks c
    by (simp add: call_prepareStep_def hook hello_def)
qed

text \<open>
  The claim as stated fails for a template whose text is empty. The configuration has a
  notification template, the function that returns the empty string; the refresh
  completes; the next call of the hook returns no override.
\<close>

theorem notification_empty_text_counterexample:
  "refreshMessage (example_config (fetch [(''fresh'', 1)]) (Some (Computed silent))) =
     Some (Computed silent) \<and>
   onStepFinish (example_config (fetch [(''fresh'', 1)]) (Some (Computed silent)))
     (makeStep [''load-skill'']) old_closure world0 =
     (Inr (), \<lparr>tools_ref = [(''fresh'', 1)], pendingRefreshMessage = Some []\<rparr>,
      world0\<lparr>fetched := 1, observed := [[''fresh'']]\<rparr>) \<and>
   call_prepareStep (example_config (fetch [(''fresh'', 1)]) (Some (Computed silent))) hello
     \<lparr>tools_ref = [(''fresh'', 1)], pendingRefreshMessage = Some []\<rparr> =
     (None, \<lparr>tools_ref = [(''fresh'', 1)], pendingRefreshMessage = Some []\<rparr>)"
  by (simp add: run_defs silent_def hello_def)

section \<open>When the result has the hook\<close>

text \<open>
  Claim C4, as amended. The result of \<^verbatim>\<open>dynamicTools\<close> has the key
  \<^verbatim>\<open>prepareStep\<close> exactly when \<^verbatim>\<open>refreshMessage\<close> is given and is not the empty
  string, that is, when it is a function or a non-empty string. Otherwise the key is
  absent; there is no hook that does nothing.
\<close>

theorem prepareStep_iff_truthy:
  "prepareStep' (dynamicTools config :: ('v, 's, 'p, 'e, 'w) DynamicToolsResult) \<noteq> None \<longleftrightarrow>
     (\<exists>m. refreshMessage config = Some m \<and> m \<noteq> Fixed [])"
proof (cases "refreshMessage config")
  case None
  then show ?thesis by (simp add: dynamicTools_def prepareStep_def truthy_def)
next
  case (Some m)
  then show ?thesis
    by (cases m) (auto simp: dynamicTools_def prepareStep_def truthy_def)
qed

text \<open>
  The tests ``is not returned when refreshMessage is omitted'' and ``returns undefined when
  no refresh has occurred'' (where the hook is defined).
\<close>

theorem prepareStep_iff_truthy_witness:
  "prepareStep' (dynamicTools (example_config (fetch []) (Some (Fixed ''Tools updated.'')))
      :: (int, step_result, unit, string, world) DynamicToolsResult) \<noteq> None \<and>
   prepareStep' (dynamicTools (example_config (fetch []) None)
      :: (int, step_result, unit, string, world) DynamicToolsResult) = None"
  using prepareStep_iff_truthy[of "example_config (fetch []) (Some (Fixed ''Tools updated.''))",
      where 'p = unit]
    prepareStep_iff_truthy[of "example_config (fetch []) None", where 'p = unit]
  by (simp add: example_config_def)

text \<open>
  The claim as stated fails for the empty string: \<^verbatim>\<open>refreshMessage\<close> is present, and
  the result has no hook.
\<close>

theorem prepareStep_empty_string_counterexample:
  "refreshMessage (example_config (fetch []) (Some (Fixed []))) = Some (Fixed []) \<and>
   prepareStep' (dynamicTools (example_config (fetch []) (Some (Fixed [])))
      :: (int, step_result, unit, string, world) DynamicToolsResult) = None"
  by (simp add: example_config_def dynamicTools_def prepareStep_def truthy_def)

section \<open>A refresh whose fetch fails\<close>

text \<open>
  Claim C5. When \<^verbatim>\<open>shouldRefresh\<close> returns true and \<^verbatim>\<open>refreshTools\<close> fails with
  \<open>e\<close>, the promise of \<^verbatim>\<open>onStepFinish\<close> is rejected with \<open>e\<close>, and the closure is the
  one before the call: the tools object has the keys and contents it had (nothing was
  deleted), and the pending message is what it was (nothing was armed).
\<close>

theorem onStepFinish_fetch_failure:
  "shouldRefresh config step w = (Inr True, w1) \<Longrightarrow>
   refreshTools config w1 = (Inl e, w2) \<Longrightarrow>
   onStepFinish config step c w = (Inl e, c, w2)"
  by (simp add: onStepFinish_def)

theorem onStepFinish_fetch_failure_witness:
  "shouldRefresh (example_config fetch_fails (Some (Fixed ''Updated!'')))
     (makeStep [''load-skill'']) world0 = (Inr True, world0) \<and>
   refreshTools (example_config fetch_fails (Some (Fixed ''Updated!''))) world0 =
     (Inl ''fetch failed'', world0\<lparr>fetched := 1\<rparr>) \<and>
   onStepFinish (example_config fetch_fails (Some (Fixed ''Updated!'')))
     (makeStep [''load-skill'']) old_closure world0 =
     (Inl ''fetch failed'', old_closure, world0\<lparr>fetched := 1\<rparr>)"
proof -
  have h1: "shouldRefresh (example_config fetch_fails (Some (Fixed ''Updated!'')))
     (makeStep [''load-skill'']) world0 = (Inr True, world0)"
    by (simp add: example_config_def calls_load_skill_def makeStep_def)
  have h2: "refreshTools (example_config fetch_fails (Some (Fixed ''Updated!''))) world0 =
     (Inl ''fetch failed'', world0\<lparr>fetched := 1\<rparr>)"
    by (simp add: example_config_def fetch_fails_def world0_def)
  show ?thesis
    using h1 h2 onStepFinish_fetch_failure [OF h1 h2, of old_closure] by simp
qed

section \<open>An observer that throws\<close>

text \<open>
  Claim C6 says that when \<^verbatim>\<open>onRefresh\<close> throws, the tools object holds exactly the
  keys of the fresh tools and no notification is armed. The lemma
  \<open>onStepFinish_observer_failure\<close> proves that the swap is done and the pending message
  untouched, and with \<open>total_replacement\<close> the keys are those of the fresh tools when
  \<^verbatim>\<open>__proto__\<close> is not one of them. With that key the tools object lacks it, as for
  claim C1: the observer throws, the promise is rejected, nothing is pending, and the only
  key is \<^verbatim>\<open>search\<close>.
\<close>

theorem observer_failure_after_proto_swap:
  "onStepFinish
     ((example_config (fetch [(''search'', 1), (''__proto__'', 2)]) (Some (Fixed ''Updated!'')))
        \<lparr>onRefresh := Some observe_fails\<rparr>)
     (makeStep [''load-skill'']) old_closure world0 =
     (Inl ''observer failed'', old_closure\<lparr>tools_ref := [(''search'', 1)]\<rparr>,
      world0\<lparr>fetched := 1, observed := [[''search'']]\<rparr>) \<and>
   Object_keys [(''search'', 1::int), (''__proto__'', 2)] = [''search'', ''__proto__'']"
  by (simp add: run_defs observe_fails_def)

section \<open>The argument of the observer\<close>

text \<open>
  Claim C7, as amended. Let a step trigger a refresh whose fetch returns fresh tools with
  distinct keys, none of them \<^verbatim>\<open>__proto__\<close>, and let \<^verbatim>\<open>onRefresh\<close> be configured.
  Then \<^verbatim>\<open>onRefresh\<close> is called once, in the world that the fetch left, and the
  run goes on from the world that this one call leaves. Its argument is the key sequence of
  the tools object after the swap, which is the key sequence of the fresh tools in the
  order of \<^verbatim>\<open>Object.keys\<close>: array indices first in ascending numeric order, then the
  other keys in insertion order. When no key is an array index, this is the insertion
  order of the fresh tools.
\<close>

theorem onRefresh_once_with_keys:
  assumes "shouldRefresh config step w = (Inr True, w1)"
    and "refreshTools config w1 = (Inr freshTools, w2)"
    and "onRefresh config = Some f"
    and "distinct (map fst freshTools)"
    and "''__proto__'' \<notin> fst ` set freshTools"
  shows "Object_keys (swap_tools (tools_ref c) freshTools) = key_order (map fst freshTools) \<and>
     (list_all (\<lambda>k. array_index k = None) (map fst freshTools) \<longrightarrow>
        key_order (map fst freshTools) = map fst freshTools) \<and>
     onStepFinish config step c w =
       (case f (key_order (map fst freshTools)) w2 of
          (Inl e, w3) \<Rightarrow> (Inl e, c\<lparr>tools_ref := swap_tools (tools_ref c) freshTools\<rparr>, w3)
        | (Inr u, w3) \<Rightarrow>
            set_pending config (key_order (map fst freshTools))
              (c\<lparr>tools_ref := swap_tools (tools_ref c) freshTools\<rparr>) w3)"
proof -
  have names: "Object_keys (swap_tools (tools_ref c) freshTools) = key_order (map fst freshTools)"
    using Object_keys_swap_tools_plain[OF assms(4,5)] by (simp add: Object_keys_def)
  have plain: "list_all (\<lambda>k. array_index k = None) (map fst freshTools) \<longrightarrow>
        key_order (map fst freshTools) = map fst freshTools"
    using Object_keys_insertion_order[of freshTools] by (simp add: Object_keys_def)
  show ?thesis
    using plain onStepFinish_refresh[OF assms(1,2), of c] assms(3)
    unfolding names by (simp add: call_onRefresh_def)
qed

text \<open>
  The test ``calls onRefresh with new tool names after refresh'': the observer has been
  called once, with \<^verbatim>\<open>["alpha", "beta", "gamma"]\<close>.
\<close>

theorem onRefresh_once_with_keys_witness:
  "shouldRefresh (example_config (fetch [(''alpha'', 1), (''beta'', 2), (''gamma'', 3)]) None)
     (makeStep [''anything'', ''load-skill'']) world0 = (Inr True, world0) \<and>
   refreshTools (example_config (fetch [(''alpha'', 1), (''beta'', 2), (''gamma'', 3)]) None) world0 =
     (Inr [(''alpha'', 1), (''beta'', 2), (''gamma'', 3)], world0\<lparr>fetched := 1\<rparr>) \<and>
   onRefresh (example_config (fetch [(''alpha'', 1), (''beta'', 2), (''gamma'', 3)]) None) = Some observe \<and>
   distinct (map fst [(''alpha'', 1::int), (''beta'', 2), (''gamma'', 3)]) \<and>
   ''__proto__'' \<notin> fst ` set [(''alpha'', 1::int), (''beta'', 2), (''gamma'', 3)] \<and>
   list_all (\<lambda>k. array_index k = None) (map fst [(''alpha'', 1::int), (''beta'', 2), (''gamma'', 3)]) \<and>
   onStepFinish (example_config (fetch [(''alpha'', 1), (''beta'', 2), (''gamma'', 3)]) None)
     (makeStep [''anything'', ''load-skill'']) old_closure world0 =
     (Inr (), old_closure\<lparr>tools_ref := [(''alpha'', 1), (''beta'', 2), (''gamma'', 3)]\<rparr>,
      world0\<lparr>fetched := 1, observed := [[''alpha'', ''beta'', ''gamma'']]\<rparr>)"
proof -
  let ?fresh = "[(''alpha'', 1::int), (''beta'', 2), (''gamma'', 3)]"
  let ?cfg = "example_config (fetch ?fresh) None"
  have h1: "shouldRefresh ?cfg (makeStep [''anything'', ''load-skill'']) world0 = (Inr True, world0)"
    by (simp add: example_config_def calls_load_skill_def makeStep_def)
  have h2: "refreshTools ?cfg world0 = (Inr ?fresh, world0\<lparr>fetched := 1\<rparr>)"
    by (simp add: example_config_def fetch_def world0_def)
  have h3: "onRefresh ?cfg = Some observe"
    by (simp add: example_config_def)
  have h4: "distinct (map fst ?fresh)" by simp
  have h5: "''__proto__'' \<notin> fst ` set ?fresh" by simp
  have h6: "list_all (\<lambda>k. array_index k = None) (map fst ?fresh)"
    by (simp add: array_index_def digit_of_def)
  have sw: "swap_tools (tools_ref old_closure) ?fresh = ?fresh"
    by (simp add: run_defs)
  show ?thesis
    using h1 h2 h3 h4 h5 h6 onRefresh_once_with_keys[OF h1 h2 h3 h4 h5, of old_closure, unfolded sw]
    by (simp add: observe_def set_pending_def example_config_def world0_def)
qed

text \<open>
  The claim as stated fails where a key is an array index. The fresh tools are created in
  the order \<^verbatim>\<open>b\<close>, \<^verbatim>\<open>1\<close>; the observer is called with \<^verbatim>\<open>["1", "b"]\<close>.
\<close>

theorem onRefresh_insertion_order_counterexample:
  "onStepFinish (example_config (fetch [(''b'', 1), (''1'', 2)]) None)
     (makeStep [''load-skill'']) old_closure world0 =
     (Inr (), old_closure\<lparr>tools_ref := [(''1'', 2), (''b'', 1)]\<rparr>,
      world0\<lparr>fetched := 1, observed := [[''1'', ''b'']]\<rparr>) \<and>
   map fst [(''b'', 1::int), (''1'', 2)] = [''b'', ''1''] \<and>
   [''1'', ''b''] \<noteq> [''b'', ''1'']"
  by (simp add: run_defs)

section \<open>The composed handler\<close>

text \<open>
  Claim C8. Without handlers the composed handler resolves and changes nothing. With
  handlers: once the handlers before a given one have resolved, in their order and each in
  the world its predecessor left, that handler is called with the same step in the world
  they left. If it fails, the composed handler fails with the same error in the world that
  handler left, whatever handlers come after it: none of them is called. If it resolves,
  the handlers after it are run from the world it left.
\<close>

theorem composeStepHandlers_in_order:
  "composeStepHandlers [] step w = (Inr (), w) \<and>
   (composeStepHandlers before step w = (Inr (), w1) \<longrightarrow>
      composeStepHandlers (before @ handler # after) step w =
        (case handler step w1 of
           (Inl e, w2) \<Rightarrow> (Inl e, w2)
         | (Inr u, w2) \<Rightarrow> composeStepHandlers after step w2))"
  by (simp add: composeStepHandlers_append)

text \<open>
  The tests of \<^verbatim>\<open>composeStepHandlers\<close>: each handler marks the world with its number and
  the step it was given. Three handlers leave the marks 1, 2, 3; when the second fails, the
  composed handler fails with its error and the third has left no mark.
\<close>

theorem composeStepHandlers_in_order_witness:
  "composeStepHandlers [] (makeStep [''t'']) world0 = (Inr (), world0 :: world) \<and>
   composeStepHandlers [mark 1] (makeStep [''t'']) world0 =
     (Inr (), world0\<lparr>marks := [(1, makeStep [''t''])]\<rparr>) \<and>
   composeStepHandlers [mark 1, mark_fails 2, mark 3] (makeStep [''t'']) world0 =
     (Inl ''handler failed'', world0\<lparr>marks := [(1, makeStep [''t'']), (2, makeStep [''t''])]\<rparr>) \<and>
   composeStepHandlers [mark 1, mark 2, mark 3] (makeStep [''t'']) world0 =
     (Inr (), world0\<lparr>marks := [(1, makeStep [''t'']), (2, makeStep [''t'']), (3, makeStep [''t''])]\<rparr>)"
proof -
  let ?s = "makeStep [''t'']"
  let ?w1 = "world0\<lparr>marks := [(1, ?s)]\<rparr>"
  have h: "composeStepHandlers [mark 1] ?s world0 = (Inr (), ?w1)"
    by (simp add: mark_def world0_def)
  have a: "composeStepHandlers ([mark 1] @ mark_fails 2 # [mark 3]) ?s world0 =
      (case mark_fails 2 ?s ?w1 of (Inl e, w2) \<Rightarrow> (Inl e, w2)
       | (Inr u, w2) \<Rightarrow> composeStepHandlers [mark 3] ?s w2)"
    using composeStepHandlers_in_order[of ?s world0 "[mark 1]" ?w1 "mark_fails 2" "[mark 3]"] h
    by blast
  have b: "composeStepHandlers ([mark 1] @ mark 2 # [mark 3]) ?s world0 =
      (case mark 2 ?s ?w1 of (Inl e, w2) \<Rightarrow> (Inl e, w2)
       | (Inr u, w2) \<Rightarrow> composeStepHandlers [mark 3] ?s w2)"
    using composeStepHandlers_in_order[of ?s world0 "[mark 1]" ?w1 "mark 2" "[mark 3]"] h
    by blast
  have e: "composeStepHandlers [] ?s world0 = (Inr (), world0 :: world)"
    using composeStepHandlers_in_order[of ?s world0 "[]" world0 "mark 1" "[]"] by blast
  show ?thesis
    using h a b e by (simp add: mark_def mark_fails_def world0_def)
qed

section \<open>The last refresh wins\<close>

text \<open>
  Claim C9. The pending notification is one variable that holds a string or nothing, so
  there is never more than one. Let \<^verbatim>\<open>refreshMessage\<close> be truthy and let two steps
  each trigger a refresh that completes, the second in the closure that the first left, with
  no call of \<^verbatim>\<open>prepareStep\<close> in between (the world may have changed). The first
  refresh leaves its text pending; the second replaces it: the pending text is the one
  computed by the second refresh from the names it produced.
\<close>

theorem last_refresh_wins:
  assumes "refreshMessage config = Some m" and "truthy (Some m)"
    and "shouldRefresh config step1 w = (Inr True, w1)"
    and "refreshTools config w1 = (Inr fresh1, w2)"
    and "call_onRefresh config (Object_keys (swap_tools (tools_ref c) fresh1)) w2 = (Inr (), w3)"
    and "message_text m (Object_keys (swap_tools (tools_ref c) fresh1)) w3 = (Inr text1, w4)"
    and "shouldRefresh config step2 w' = (Inr True, w5)"
    and "refreshTools config w5 = (Inr fresh2, w6)"
    and "call_onRefresh config
           (Object_keys (swap_tools (swap_tools (tools_ref c) fresh1) fresh2)) w6 = (Inr (), w7)"
    and "message_text m
           (Object_keys (swap_tools (swap_tools (tools_ref c) fresh1) fresh2)) w7 = (Inr text2, w8)"
  shows "onStepFinish config step1 c w =
       (Inr (), c\<lparr>tools_ref := swap_tools (tools_ref c) fresh1,
                  pendingRefreshMessage := Some text1\<rparr>, w4) \<and>
     onStepFinish config step2
       (c\<lparr>tools_ref := swap_tools (tools_ref c) fresh1, pendingRefreshMessage := Some text1\<rparr>) w' =
       (Inr (), c\<lparr>tools_ref := swap_tools (swap_tools (tools_ref c) fresh1) fresh2,
                  pendingRefreshMessage := Some text2\<rparr>, w8)"
proof -
  have 1: "onStepFinish config step1 c w =
       (Inr (), c\<lparr>tools_ref := swap_tools (tools_ref c) fresh1,
                  pendingRefreshMessage := Some text1\<rparr>, w4)"
    using assms(1,2,5,6) by (simp add: onStepFinish_refresh[OF assms(3,4)] set_pending_def)
  have 2: "onStepFinish config step2
       (c\<lparr>tools_ref := swap_tools (tools_ref c) fresh1, pendingRefreshMessage := Some text1\<rparr>) w' =
       (Inr (), c\<lparr>tools_ref := swap_tools (swap_tools (tools_ref c) fresh1) fresh2,
                  pendingRefreshMessage := Some text2\<rparr>, w8)"
    using assms(1,2,9,10) by (simp add: onStepFinish_refresh[OF assms(7,8)] set_pending_def)
  show ?thesis using 1 2 by simp
qed

text \<open>
  The test ``handles multiple sequential refreshes'' with a message computed from the
  names: after the second refresh the pending text names \<^verbatim>\<open>tool-2\<close>.
\<close>

theorem last_refresh_wins_witness:
  "truthy (Some (Computed now_available :: (string, world) template)) \<and>
   onStepFinish (example_config fetch_numbered (Some (Computed now_available)))
     (makeStep [''load-skill'']) old_closure world0 =
     (Inr (), \<lparr>tools_ref = [(''tool-1'', 1)],
               pendingRefreshMessage = Some ''Now available: tool-1''\<rparr>,
      world0\<lparr>fetched := 1, observed := [[''tool-1'']]\<rparr>) \<and>
   onStepFinish (example_config fetch_numbered (Some (Computed now_available)))
     (makeStep [''load-skill''])
     \<lparr>tools_ref = [(''tool-1'', 1)], pendingRefreshMessage = Some ''Now available: tool-1''\<rparr>
     (world0\<lparr>fetched := 1, observed := [[''tool-1'']]\<rparr>) =
     (Inr (), \<lparr>tools_ref = [(''tool-2'', 2)],
               pendingRefreshMessage = Some ''Now available: tool-2''\<rparr>,
      world0\<lparr>fetched := 2, observed := [[''tool-1''], [''tool-2'']]\<rparr>)"
proof -
  let ?cfg = "example_config fetch_numbered (Some (Computed now_available))"
  let ?s = "makeStep [''load-skill'']"
  let ?wa = "world0\<lparr>fetched := 1\<rparr>"
  let ?wb = "world0\<lparr>fetched := 1, observed := [[''tool-1'']]\<rparr>"
  let ?wc = "world0\<lparr>fetched := 2, observed := [[''tool-1'']]\<rparr>"
  let ?wd = "world0\<lparr>fetched := 2, observed := [[''tool-1''], [''tool-2'']]\<rparr>"
  have sw1: "swap_tools (tools_ref old_closure) [(''tool-1'', 1::int)] = [(''tool-1'', 1)]"
    by (simp add: run_defs)
  have sw2: "swap_tools [(''tool-1'', 1::int)] [(''tool-2'', 2)] = [(''tool-2'', 2)]"
    by (simp add: run_defs)
  have k1: "Object_keys [(''tool-1'', 1::int)] = [''tool-1'']"
    by (simp add: run_defs)
  have k2: "Object_keys [(''tool-2'', 2::int)] = [''tool-2'']"
    by (simp add: run_defs)
  have m: "refreshMessage ?cfg = Some (Computed now_available)"
    by (simp add: example_config_def)
  have t: "truthy (Some (Computed now_available :: (string, world) template))"
    by (simp add: truthy_def)
  have a1: "shouldRefresh ?cfg ?s world0 = (Inr True, world0)"
    by (simp add: example_config_def calls_load_skill_def makeStep_def)
  have a2: "refreshTools ?cfg world0 = (Inr [(''tool-1'', 1)], ?wa)"
    by (simp add: example_config_def fetch_numbered_def world0_def)
  have a3: "call_onRefresh ?cfg (Object_keys (swap_tools (tools_ref old_closure) [(''tool-1'', 1)])) ?wa =
      (Inr (), ?wb)"
    unfolding sw1 k1 by (simp add: call_onRefresh_def example_config_def observe_def world0_def)
  have a4: "message_text (Computed now_available)
      (Object_keys (swap_tools (tools_ref old_closure) [(''tool-1'', 1)])) ?wb =
      (Inr ''Now available: tool-1'', ?wb)"
    unfolding sw1 k1 by (simp add: message_text_def now_available_def)
  have b1: "shouldRefresh ?cfg ?s ?wb = (Inr True, ?wb)"
    by (simp add: example_config_def calls_load_skill_def makeStep_def)
  have b2: "refreshTools ?cfg ?wb = (Inr [(''tool-2'', 2)], ?wc)"
    by (simp add: example_config_def fetch_numbered_def world0_def)
  have b3: "call_onRefresh ?cfg
      (Object_keys (swap_tools (swap_tools (tools_ref old_closure) [(''tool-1'', 1)]) [(''tool-2'', 2)])) ?wc =
      (Inr (), ?wd)"
    unfolding sw1 sw2 k2 by (simp add: call_onRefresh_def example_config_def observe_def world0_def)
  have b4: "message_text (Computed now_available)
      (Object_keys (swap_tools (swap_tools (tools_ref old_closure) [(''tool-1'', 1)]) [(''tool-2'', 2)])) ?wd =
      (Inr ''Now available: tool-2'', ?wd)"
    unfolding sw1 sw2 k2 by (simp add: message_text_def now_available_def)
  have c: "old_closure\<lparr>tools_ref := ts, pendingRefreshMessage := p\<rparr> =
      \<lparr>tools_ref = ts, pendingRefreshMessage = p\<rparr>" for ts p
    by (simp add: old_closure_def)
  show ?thesis
    using t last_refresh_wins[OF m t a1 a2 a3 a4 b1 b2 b3 b4]
    unfolding sw1 sw2 c by simp
qed

section \<open>An empty notification text\<close>

text \<open>
  Claim C10. Let a step trigger a refresh that completes, and let the text of the
  configured message be empty: \<^verbatim>\<open>refreshMessage\<close> is the empty string, or a function
  that returns the empty string at the new tool names (\<open>message_text\<close> is \<open>Inr []\<close> in
  both cases and in no other). Then \<^verbatim>\<open>onStepFinish\<close> resolves with the tools swapped,
  and in the closure it leaves every call \<^verbatim>\<open>prepareStep?.(...)\<close> returns no override
  and changes nothing, so nothing is delivered by any later call either. This is what the
  same call returns in the closure that \<^verbatim>\<open>dynamicTools\<close> creates, where no refresh has
  occurred.
\<close>

theorem empty_text_never_delivered:
  assumes "shouldRefresh config step w = (Inr True, w1)"
    and "refreshTools config w1 = (Inr freshTools, w2)"
    and "call_onRefresh config (Object_keys (swap_tools (tools_ref c) freshTools)) w2 = (Inr (), w3)"
    and "refreshMessage config = Some m"
    and "message_text m (Object_keys (swap_tools (tools_ref c) freshTools)) w3 = (Inr [], w4)"
  shows "\<exists>c'. onStepFinish config step c w = (Inr (), c', w4) \<and>
     tools_ref c' = swap_tools (tools_ref c) freshTools \<and>
     (\<forall>msgs :: 'p message list. call_prepareStep config msgs c' = (None, c')) \<and>
     (\<forall>msgs :: 'p message list. call_prepareStep config msgs
        (closure0 (dynamicTools config :: ('v, 's, 'p, 'e, 'w) DynamicToolsResult)) =
        (None, closure0 (dynamicTools config :: ('v, 's, 'p, 'e, 'w) DynamicToolsResult)))"
proof (cases m)
  case (Fixed s)
  with assms(5) have s: "s = []" and w: "w4 = w3" by (auto simp: message_text_def)
  have "onStepFinish config step c w =
      (Inr (), c\<lparr>tools_ref := swap_tools (tools_ref c) freshTools\<rparr>, w4)"
    using assms(3,4) Fixed s w
    by (simp add: onStepFinish_refresh[OF assms(1,2)] set_pending_def truthy_def)
  then show ?thesis
    using assms(4) Fixed s
    by (simp add: call_prepareStep_def prepareStep_def truthy_def dynamicTools_def)
next
  case (Computed f)
  have "onStepFinish config step c w =
      (Inr (), c\<lparr>tools_ref := swap_tools (tools_ref c) freshTools,
                 pendingRefreshMessage := Some []\<rparr>, w4)"
    using assms(3,4,5) Computed
    by (simp add: onStepFinish_refresh[OF assms(1,2)] set_pending_def truthy_def)
  then show ?thesis
    using assms(4) Computed
    by (simp add: call_prepareStep_def prepareStep_def truthy_def dynamicTools_def)
qed

text \<open>A function that returns the empty string: the refresh completes, nothing is delivered.\<close>

theorem empty_text_never_delivered_witness:
  "message_text (Computed silent :: (string, world) template) [''fresh'']
     (world0\<lparr>fetched := 1, observed := [[''fresh'']]\<rparr>) =
     (Inr [], world0\<lparr>fetched := 1, observed := [[''fresh'']]\<rparr>) \<and>
   onStepFinish (example_config (fetch [(''fresh'', 1)]) (Some (Computed silent)))
     (makeStep [''load-skill'']) old_closure world0 =
     (Inr (), \<lparr>tools_ref = [(''fresh'', 1)], pendingRefreshMessage = Some []\<rparr>,
      world0\<lparr>fetched := 1, observed := [[''fresh'']]\<rparr>) \<and>
   call_prepareStep (example_config (fetch [(''fresh'', 1)]) (Some (Computed silent))) hello
     \<lparr>tools_ref = [(''fresh'', 1)], pendingRefreshMessage = Some []\<rparr> =
     (None, \<lparr>tools_ref = [(''fresh'', 1)], pendingRefreshMessage = Some []\<rparr>)"
proof -
  let ?cfg = "example_config (fetch [(''fresh'', 1)]) (Some (Computed silent))"
  let ?s = "makeStep [''load-skill'']"
  let ?wa = "world0\<lparr>fetched := 1\<rparr>"
  let ?wb = "world0\<lparr>fetched := 1, observed := [[''fresh'']]\<rparr>"
  have sw: "swap_tools (tools_ref old_closure) [(''fresh'', 1::int)] = [(''fresh'', 1)]"
    by (simp add: run_defs)
  have ks: "Object_keys [(''fresh'', 1::int)] = [''fresh'']"
    by (simp add: run_defs)
  have h1: "shouldRefresh ?cfg ?s world0 = (Inr True, world0)"
    by (simp add: example_config_def calls_load_skill_def makeStep_def)
  have h2: "refreshTools ?cfg world0 = (Inr [(''fresh'', 1)], ?wa)"
    by (simp add: example_config_def fetch_def world0_def)
  have h3: "call_onRefresh ?cfg (Object_keys (swap_tools (tools_ref old_closure) [(''fresh'', 1)])) ?wa =
      (Inr (), ?wb)"
    unfolding sw ks by (simp add: call_onRefresh_def example_config_def observe_def world0_def)
  have h4: "refreshMessage ?cfg = Some (Computed silent)"
    by (simp add: example_config_def)
  have h5: "message_text (Computed silent)
      (Object_keys (swap_tools (tools_ref old_closure) [(''fresh'', 1)])) ?wb = (Inr [], ?wb)"
    by (simp add: message_text_def silent_def)
  from empty_text_never_delivered[OF h1 h2 h3 h4 h5, where 'p = unit]
  obtain c' where fin: "onStepFinish ?cfg ?s old_closure world0 = (Inr (), c', ?wb)"
    and no: "\<forall>msgs :: unit message list. call_prepareStep ?cfg msgs c' = (None, c')"
    by blast
  have c': "c' = \<lparr>tools_ref = [(''fresh'', 1)], pendingRefreshMessage = Some []\<rparr>"
    using fin by (simp add: run_defs silent_def)
  show ?thesis
    using fin no[rule_format, of hello] h5 unfolding c' sw ks by simp
qed

end
